theory Spec2Isabelle
  imports Main "HOL-Library.Sublist" "HOL-Library.Multiset"
begin

section \<open>Python strings\<close>

text \<open>
  A Python \<^verbatim>\<open>str\<close> is a sequence of Unicode code points, and \<^verbatim>\<open>len\<close> counts code points.
  A code point is a natural number here; \<open>lit\<close> turns an (ASCII) literal of the source
  into its code points.
\<close>

type_synonym pystr = "nat list"

definition lit :: "string \<Rightarrow> pystr" where
  "lit cs = map of_char cs"

text \<open>
  \<^verbatim>\<open>str.isspace\<close> of one code point, which is what \<^verbatim>\<open>str.strip()\<close> and
  \<^verbatim>\<open>str.split()\<close> without a separator test: the code points of bidirectional type WS, B
  or S and of category Zs.
\<close>

definition isspace :: "nat \<Rightarrow> bool" where
  "isspace c =
     (List.member
        [0x09, 0x0A, 0x0B, 0x0C, 0x0D, 0x1C, 0x1D, 0x1E, 0x1F, 0x20, 0x85, 0xA0,
         0x1680, 0x2028, 0x2029, 0x202F, 0x205F, 0x3000] c
      \<or> (0x2000 \<le> c \<and> c \<le> 0x200A))"

text \<open>\<^verbatim>\<open>s.strip()\<close>: leading and trailing whitespace removed.\<close>

definition py_strip :: "pystr \<Rightarrow> pystr" where
  "py_strip s = rev (dropWhile isspace (rev (dropWhile isspace s)))"

text \<open>
  \<^verbatim>\<open>s.lower()\<close>. The source only compares lowered strings with ASCII literals
  (\<^verbatim>\<open>'y'\<close> and the command names). The table below is exact on ASCII and on the two
  code points outside ASCII whose lowercase contains an ASCII letter (U+0130, which
  lowers to \<^verbatim>\<open>i\<close> followed by U+0307, and the Kelvin sign U+212A, which lowers to
  \<^verbatim>\<open>k\<close>); every other code point outside ASCII lowers to code points outside ASCII
  and is left as it is, which no comparison with an ASCII literal can tell apart.
\<close>

definition lower_cp :: "nat \<Rightarrow> pystr" where
  "lower_cp c =
     (if 0x41 \<le> c \<and> c \<le> 0x5A then [c + 0x20]
      else if c = 0x130 then [0x69, 0x307]
      else if c = 0x212A then [0x6B]
      else [c])"

definition py_lower :: "pystr \<Rightarrow> pystr" where
  "py_lower s = concat (map lower_cp s)"

text \<open>\<^verbatim>\<open>s.split(maxsplit=1)\<close>: the first word and, when there is one, the rest after
  the whitespace that follows it; no part at all for a string of whitespace only.\<close>

definition split1 :: "pystr \<Rightarrow> pystr list" where
  "split1 s =
     (let s1 = dropWhile isspace s in
      if s1 = [] then []
      else
        let word = takeWhile (\<lambda>c. \<not> isspace c) s1;
            remainder = dropWhile isspace (dropWhile (\<lambda>c. \<not> isspace c) s1)
        in if remainder = [] then [word] else [word, remainder])"

text \<open>\<^verbatim>\<open>old in s\<close>: \<open>old\<close> occurs in \<open>s\<close> as a substring.\<close>

fun contains :: "pystr \<Rightarrow> pystr \<Rightarrow> bool" where
  "contains old [] = (old = [])"
| "contains old (c # cs) = (prefix old (c # cs) \<or> contains old cs)"

text \<open>
  \<^verbatim>\<open>s.replace(old, "")\<close>: every occurrence of \<open>old\<close> is removed, searching from the
  left and resuming after each occurrence found. (With an empty \<open>old\<close> Python inserts the
  empty replacement between the characters, which changes nothing.)
\<close>

function remove_all :: "pystr \<Rightarrow> pystr \<Rightarrow> pystr" where
  "remove_all old [] = []"
| "remove_all old (c # cs) =
     (if old \<noteq> [] \<and> prefix old (c # cs) then remove_all old (drop (length old - 1) cs)
      else c # remove_all old cs)"
  by pat_completeness auto
termination
  by (relation "measure (\<lambda>(old, s). length s)") auto

text \<open>\<^verbatim>\<open>s.endswith(suffix)\<close> is \<^const>\<open>suffix\<close> and \<^verbatim>\<open>s.startswith(prefix)\<close> is
  \<^const>\<open>prefix\<close>.\<close>

section \<open>Exceptions\<close>

text \<open>
  The exceptions the program can meet. \<open>KeyboardInterrupt\<close> derives from
  \<^verbatim>\<open>BaseException\<close> only; all the others are subclasses of \<^verbatim>\<open>Exception\<close>, which is
  what \<^verbatim>\<open>except Exception\<close> catches.
\<close>

datatype exn =
    KeyboardInterrupt
  | EOFError
  | IndexError
  | ValueError
  | FileNotFoundError
  | OSError
  | UnicodeEncodeError
  | RuntimeError

section \<open>The environment\<close>

text \<open>
  What the program prints. Each constructor stands for one \<^verbatim>\<open>print\<close> (or the prompt of
  one \<^verbatim>\<open>input\<close>) of the source; decoration is left out, the data printed is kept.
\<close>

datatype console =
    Banner | ModelMissing | Loading | ModelLoaded | ModelFileNotFound
  | ErrorReport exn
  | ModelNotLoaded | BotMark | Token pystr | Newline | NoResponse | InterruptedNotice
  | AlreadyEmpty | ClearPrompt | Cleared | Cancelled
  | NoChatToSave | ChatSaved pystr | ErrorSaving exn
  | NoSavedChats | SavedChatsHeader | ListedChat nat pystr int | SavedChatsFooter
  | StatsShown | HistoryOutput | HelpShown
  | InputPrompt | Goodbye | UnknownCommand pystr | TypeQuit | UnexpectedError exn
  | SavePrompt

text \<open>
  What \<^verbatim>\<open>input()\<close> meets on the terminal: a line (without its newline), an interrupt
  (Ctrl-C, raising \<^verbatim>\<open>KeyboardInterrupt\<close>) or the end of input (raising \<^verbatim>\<open>EOFError\<close>).
\<close>

datatype keyboard = Line pystr | CtrlC | CtrlD

text \<open>
  One reading of the system clock: \<open>stamp\<close> orders the readings (it is what a file's
  \<^verbatim>\<open>st_mtime\<close> is compared by), the other fields are the local date and time that
  \<^verbatim>\<open>datetime.now(self.timezone)\<close> returns.
\<close>

record instant =
  stamp :: int
  t_year :: nat
  t_month :: nat
  t_day :: nat
  t_hour :: nat
  t_minute :: nat
  t_second :: nat

text \<open>
  The inference engine is an external collaborator. A generation event is the dictionary
  the engine yields: it may lack the key \<^verbatim>\<open>"choices"\<close>, and a choice may lack the keys
  \<^verbatim>\<open>"text"\<close> and \<^verbatim>\<open>"finish_reason"\<close>. Iterating over the stream either yields the next
  event or raises; nothing after a raise is reached. The engine answers a prompt with a
  stream; its answer may differ from call to call, so it also takes the number of the
  call.
\<close>

record choice =
  choice_text :: "pystr option"
  finish_reason :: "pystr option"

record chunk =
  choices :: "choice list option"

datatype event = Yield chunk | Raise exn

type_synonym engine = "nat \<Rightarrow> pystr \<Rightarrow> event list"

text \<open>The record \<^verbatim>\<open>save_data\<close> that \<^verbatim>\<open>save_chat\<close> serialises.\<close>

record msg =
  role :: pystr
  content :: pystr

record save_data =
  timestamp :: instant
  saved_prompt :: pystr
  messages :: "msg list"

text \<open>
  The directory \<^verbatim>\<open>chat_history\<close>, as \<^verbatim>\<open>Path.glob\<close> and \<^verbatim>\<open>Path.stat\<close> see it: its
  entries in the order the directory is enumerated, each with its name, the result of
  \<^verbatim>\<open>stat()\<close> (the modification time, or the error raised, as for a dangling symbolic
  link) and what it holds. The rest is the operating system's:
  \<^item> \<open>faults\<close>: whether opening the file for writing, or writing to it once opened, fails
    for a given file name (a missing directory, permissions, a full disk, ...);
  \<^item> \<open>denotes\<close>: for a file name with a path separator, the entry of \<^verbatim>\<open>chat_history\<close> the
    joined path leads to, if any (\<^verbatim>\<open>Path(CHAT_HISTORY_DIR) / filename\<close> leaves the
    directory for an absolute name or one with directories in it);
  \<^item> \<open>slot\<close>: where the enumeration places a new entry.
\<close>

datatype holding = Session save_data | Other

record entry =
  e_name :: pystr
  e_stat :: "exn + int"
  e_holds :: holding

datatype io_fault = OpenFails exn | WriteFails exn

record filesystem =
  listing :: "entry list"
  faults :: "pystr \<Rightarrow> io_fault option"
  denotes :: "pystr \<Rightarrow> pystr option"
  slot :: "pystr \<Rightarrow> nat"

text \<open>
  The world outside the program: the keys still to come, what was printed so far, the
  clock (a reading for each time it is read), the file system and the number of calls the
  engine has answered; further
  \<^item> \<open>fromtimestamp\<close>: the exception \<^verbatim>\<open>datetime.fromtimestamp\<close> raises for a modification
    time, if any (a time outside the years 1 to 9999, or outside what the platform
    converts);
  \<^item> \<open>strict_stdout\<close>: whether \<^verbatim>\<open>sys.stdout\<close> encodes with the error handler
    \<^verbatim>\<open>strict\<close>, as under a UTF-8 locale, or with \<^verbatim>\<open>surrogateescape\<close>, as under the C
    locale.
\<close>

record world =
  stdin :: "keyboard list"
  stdout :: "console list"
  ticks :: nat
  clock :: "nat \<Rightarrow> instant"
  disk :: filesystem
  requests :: nat
  fromtimestamp :: "int \<Rightarrow> exn option"
  strict_stdout :: bool

definition emit :: "console list \<Rightarrow> world \<Rightarrow> world" where
  "emit ms w = w\<lparr>stdout := stdout w @ ms\<rparr>"

definition now :: "world \<Rightarrow> instant \<times> world" where
  "now w = (clock w (ticks w), w\<lparr>ticks := Suc (ticks w)\<rparr>)"

text \<open>\<^verbatim>\<open>input(prompt)\<close>: prints the prompt, then reads the next key.\<close>

definition py_input :: "console \<Rightarrow> world \<Rightarrow> (exn + pystr) \<times> world" where
  "py_input prompt w =
     (let w1 = emit [prompt] w in
      case stdin w1 of
        [] \<Rightarrow> (Inl EOFError, w1)
      | Line s # ks \<Rightarrow> (Inr s, w1\<lparr>stdin := ks\<rparr>)
      | CtrlC # ks \<Rightarrow> (Inl KeyboardInterrupt, w1\<lparr>stdin := ks\<rparr>)
      | CtrlD # ks \<Rightarrow> (Inl EOFError, w1\<lparr>stdin := ks\<rparr>))"

section \<open>The chatbot\<close>

definition SYSTEM_PROMPT :: pystr where
  "SYSTEM_PROMPT =
     lit ''You are a warm, friendly, and highly intelligent AI assistant. You communicate naturally and conversationally, like a knowledgeable friend who genuinely wants to help. \<newline>\<newline>''
     @ lit ''Be clear and direct in your responses, but keep your tone approachable and engaging. Provide detailed explanations when needed, but do it in a way that feels natural, not overly formal. Use structure (like bullet points or numbered lists) only when it genuinely makes things clearer - otherwise, just talk normally.\<newline>\<newline>''
     @ lit ''If something's unclear, ask follow-up questions in a friendly way. Share your knowledge with enthusiasm, adapt to the user's level of expertise, and make complex topics feel accessible. When giving instructions, guide them step-by-step like you're helping a friend.\<newline>\<newline>''
     @ lit ''Be helpful, accurate, and thoughtful - but most importantly, be genuinely friendly and easy to talk to.''"

definition EOT :: pystr where
  "EOT = lit ''<|eot_id|>''"

text \<open>The fields of \<^verbatim>\<open>ChatBot\<close>; \<open>llm\<close> is \<open>None\<close> until the model is loaded.\<close>

record bot =
  llm :: "engine option"
  chat_history :: "msg list"
  system_prompt :: pystr
  current_chat_file :: "pystr option"

definition ChatBot :: bot where
  "ChatBot = \<lparr>llm = None, chat_history = [], system_prompt = SYSTEM_PROMPT,
     current_chat_file = None\<rparr>"

subsection \<open>Prompt formatting\<close>

definition format_msg :: "msg \<Rightarrow> pystr" where
  "format_msg m =
     lit ''<|start_header_id|>'' @ role m @ lit ''<|end_header_id|>\<newline>\<newline>''
     @ content m @ lit ''<|eot_id|>''"

definition format_chat_history :: "bot \<Rightarrow> pystr" where
  "format_chat_history self =
     foldl (\<lambda>formatted m. formatted @ format_msg m)
       (lit ''<|begin_of_text|><|start_header_id|>system<|end_header_id|>\<newline>\<newline>''
        @ system_prompt self @ lit ''<|eot_id|>'')
       (chat_history self)"

text \<open>The prompt \<^verbatim>\<open>chat\<close> sends to the engine: the formatted history and an open
  assistant header.\<close>

definition assistant_header :: pystr where
  "assistant_header = lit ''<|start_header_id|>assistant<|end_header_id|>\<newline>\<newline>''"

definition build_prompt :: "bot \<Rightarrow> pystr" where
  "build_prompt self = format_chat_history self @ assistant_header"

subsection \<open>Consuming the generation stream\<close>

text \<open>
  The \<^verbatim>\<open>for\<close> loop of \<^verbatim>\<open>chat\<close> over the stream, with the response accumulated so far
  and what was printed so far. It ends with the accumulated response (the stream ended,
  or a \<^verbatim>\<open>break\<close>) or with the exception the stream raised.
\<close>

fun consume :: "event list \<Rightarrow> pystr \<Rightarrow> console list \<Rightarrow> (exn + pystr) \<times> console list" where
  "consume [] response_text out = (Inr response_text, out)"
| "consume (Raise e # events) response_text out = (Inl e, out)"
| "consume (Yield output # events) response_text out =
     (case choices output of
        None \<Rightarrow> consume events response_text out
      | Some [] \<Rightarrow> consume events response_text out
      | Some (choice # _) \<Rightarrow>
          let token = (case choice_text choice of None \<Rightarrow> [] | Some t \<Rightarrow> t) in
          if finish_reason choice = Some (lit ''stop'') then (Inr response_text, out)
          else if contains EOT token then
            let token = remove_all EOT token in
            if token = [] then (Inr response_text, out)
            else (Inr (response_text @ token), out @ [Token token])
          else consume events (response_text @ token) (out @ [Token token]))"

subsection \<open>One exchange\<close>

text \<open>\<^verbatim>\<open>self.chat_history.pop()\<close>; the list is never empty where \<^verbatim>\<open>chat\<close> pops it, a
  user message having just been appended.\<close>

definition pop_last :: "bot \<Rightarrow> bot" where
  "pop_last self = self\<lparr>chat_history := butlast (chat_history self)\<rparr>"

definition append_msg :: "pystr \<Rightarrow> pystr \<Rightarrow> bot \<Rightarrow> bot" where
  "append_msg r c self = self\<lparr>chat_history := chat_history self @ [\<lparr>role = r, content = c\<rparr>]\<rparr>"

text \<open>\<^verbatim>\<open>chat\<close> returns the response, or \<open>None\<close>; every exception raised while streaming
  is caught inside it.\<close>

definition chat :: "bot \<Rightarrow> pystr \<Rightarrow> world \<Rightarrow> pystr option \<times> bot \<times> world" where
  "chat self user_input w =
     (case llm self of
        None \<Rightarrow> (None, self, emit [ModelNotLoaded] w)
      | Some engine \<Rightarrow>
          let self1 = append_msg (lit ''user'') user_input self;
              prompt = build_prompt self1;
              (result, out) = consume (engine (requests w) prompt) [] [BotMark];
              w1 = emit out (w\<lparr>requests := Suc (requests w)\<rparr>)
          in (case result of
                Inl e \<Rightarrow>
                  (None, pop_last self1,
                   emit [if e = KeyboardInterrupt then InterruptedNotice else ErrorReport e] w1)
              | Inr response \<Rightarrow>
                  let response_text = py_strip response in
                  if response_text = [] \<or> length response_text < 2
                  then (None, pop_last self1, emit [Newline, NoResponse] w1)
                  else (Some response_text,
                        append_msg (lit ''assistant'') response_text self1,
                        emit [Newline] w1)))"

subsection \<open>Clearing\<close>

text \<open>\<^verbatim>\<open>clear_chat\<close> raises what \<^verbatim>\<open>input\<close> raises; the first component is that
  exception, if any.\<close>

definition clear_chat :: "bot \<Rightarrow> world \<Rightarrow> exn option \<times> bot \<times> world" where
  "clear_chat self w =
     (if chat_history self = [] then (None, self, emit [AlreadyEmpty] w)
      else
        case py_input ClearPrompt w of
          (Inl e, w1) \<Rightarrow> (Some e, self, w1)
        | (Inr answer, w1) \<Rightarrow>
            let confirm = py_lower (py_strip answer) in
            if confirm = lit ''y''
            then (None, self\<lparr>chat_history := [], current_chat_file := None\<rparr>,
                  emit [Cleared] w1)
            else (None, self, emit [Cancelled] w1))"

subsection \<open>Saving\<close>

text \<open>A value that Python's \<^verbatim>\<open>not\<close> takes for false: \<^verbatim>\<open>None\<close> or the empty string.\<close>

definition falsy :: "pystr option \<Rightarrow> bool" where
  "falsy x = (case x of None \<Rightarrow> True | Some s \<Rightarrow> s = [])"

text \<open>\<^verbatim>\<open>strftime("%Y%m%d_%H%M%S")\<close> of a date and time, each field in decimal with leading
  zeros (four digits for the year, two for the others). The fields of a
  \<^verbatim>\<open>datetime\<close> are in range (a year up to 9999, a month up to 12, and so on), and the
  years a system clock gives have four digits.\<close>

definition dec2 :: "nat \<Rightarrow> pystr" where
  "dec2 n = [0x30 + n div 10 mod 10, 0x30 + n mod 10]"

definition dec4 :: "nat \<Rightarrow> pystr" where
  "dec4 n = [0x30 + n div 1000 mod 10, 0x30 + n div 100 mod 10,
             0x30 + n div 10 mod 10, 0x30 + n mod 10]"

definition strftime :: "instant \<Rightarrow> pystr" where
  "strftime t =
     dec4 (t_year t) @ dec2 (t_month t) @ dec2 (t_day t) @ lit ''_''
     @ dec2 (t_hour t) @ dec2 (t_minute t) @ dec2 (t_second t)"

text \<open>The file name \<^verbatim>\<open>save_chat\<close> settles on (the part under
  \<^verbatim>\<open># Generate filename\<close>): \<^verbatim>\<open>if not custom_filename\<close> and
  \<^verbatim>\<open>if self.current_chat_file\<close> take \<^verbatim>\<open>None\<close> and the empty string alike. The clock
  is read only for a generated name.\<close>

definition generate_filename :: "bot \<Rightarrow> pystr option \<Rightarrow> world \<Rightarrow> pystr \<times> world" where
  "generate_filename self custom_filename w =
     (case (if falsy custom_filename then None else custom_filename) of
        Some custom \<Rightarrow>
          (if suffix (lit ''.json'') custom then custom else custom @ lit ''.json'', w)
      | None \<Rightarrow>
          (case (if falsy (current_chat_file self) then None else current_chat_file self) of
             Some current \<Rightarrow> (current, w)
           | None \<Rightarrow>
               let (t, w1) = now w in (lit ''chat_'' @ strftime t @ lit ''.json'', w1)))"

text \<open>
  \<^verbatim>\<open>json.dump\<close> writes to a file opened with \<^verbatim>\<open>encoding='utf-8'\<close>, which refuses a
  lone surrogate (U+D800 to U+DFFF) with \<^verbatim>\<open>UnicodeEncodeError\<close>.
\<close>

definition encodable :: "pystr \<Rightarrow> bool" where
  "encodable s = list_all (\<lambda>c. c < 0xD800 \<or> 0xDFFF < c) s"

definition serialisable :: "save_data \<Rightarrow> bool" where
  "serialisable d =
     (encodable (saved_prompt d)
      \<and> list_all (\<lambda>m. encodable (role m) \<and> encodable (content m)) (messages d))"

text \<open>
  A file name without a path separator (\<^verbatim>\<open>/\<close>) or a NUL, other than \<^verbatim>\<open>.\<close> and
  \<^verbatim>\<open>..\<close>, names an entry of \<^verbatim>\<open>chat_history\<close> itself; where any other name leads
  is the operating system's to say.
\<close>

definition plain :: "pystr \<Rightarrow> bool" where
  "plain filename =
     (\<not> (List.member filename 0x2F \<or> List.member filename 0
         \<or> List.member [[], lit ''.'', lit ''..''] filename))"

definition child_of :: "filesystem \<Rightarrow> pystr \<Rightarrow> pystr option" where
  "child_of fs filename = (if plain filename then Some filename else denotes fs filename)"

definition put_entry :: "pystr \<Rightarrow> int \<Rightarrow> holding \<Rightarrow> filesystem \<Rightarrow> filesystem" where
  "put_entry n t h fs =
     (let e = \<lparr>e_name = n, e_stat = Inr t, e_holds = h\<rparr> in
      if List.member (map e_name (listing fs)) n
      then fs\<lparr>listing := map (\<lambda>x. if e_name x = n then e else x) (listing fs)\<rparr>
      else fs\<lparr>listing := take (slot fs n) (listing fs) @ [e] @ drop (slot fs n) (listing fs)\<rparr>)"

text \<open>
  The body of the \<^verbatim>\<open>try\<close> of \<^verbatim>\<open>save_chat\<close>: \<^verbatim>\<open>open(filepath, 'w')\<close>, then
  \<^verbatim>\<open>json.dump\<close>. The result is the exception raised, if any. A file name with a NUL is
  refused by \<^verbatim>\<open>open\<close> with \<^verbatim>\<open>ValueError\<close>. Once the file is open it exists, modified
  now; it holds the session record when the dump went through.
\<close>

definition write_file :: "pystr \<Rightarrow> save_data \<Rightarrow> world \<Rightarrow> exn option \<times> world" where
  "write_file filename d w =
     (if List.member filename 0 then (Some ValueError, w)
      else
        case faults (disk w) filename of
          Some (OpenFails e) \<Rightarrow> (Some e, w)
        | fault \<Rightarrow>
            let (t, w1) = now w;
                raised = (case fault of
                            Some (WriteFails e) \<Rightarrow> Some e
                          | _ \<Rightarrow> if serialisable d then None else Some UnicodeEncodeError);
                holds = (if raised = None then Session d else Other);
                fs = (case child_of (disk w1) filename of
                        None \<Rightarrow> disk w1
                      | Some n \<Rightarrow> put_entry n (stamp t) holds (disk w1))
            in (raised, w1\<lparr>disk := fs\<rparr>))"

text \<open>
  \<^verbatim>\<open>save_chat\<close>. Its handler is \<^verbatim>\<open>except Exception\<close>: an exception of the write is
  caught and reported unless it is \<^verbatim>\<open>KeyboardInterrupt\<close>, which leaves \<^verbatim>\<open>save_chat\<close>;
  the first component is the exception that leaves it, if any.
\<close>

definition save_chat :: "bot \<Rightarrow> pystr option \<Rightarrow> world \<Rightarrow> exn option \<times> bot \<times> world" where
  "save_chat self custom_filename w =
     (if chat_history self = [] then (None, self, emit [NoChatToSave] w)
      else
        let (filename, w1) = generate_filename self custom_filename w;
            (t, w2) = now w1;
            data = \<lparr>timestamp = t, saved_prompt = system_prompt self,
                    messages = chat_history self\<rparr>
        in (case write_file filename data w2 of
              (None, w3) \<Rightarrow>
                (None, self\<lparr>current_chat_file := Some filename\<rparr>,
                 emit [ChatSaved filename] w3)
            | (Some e, w3) \<Rightarrow>
                if e = KeyboardInterrupt then (Some e, self, w3)
                else (None, self, emit [ErrorSaving e] w3)))"

subsection \<open>Listing\<close>

text \<open>The sort keys \<^verbatim>\<open>x.stat().st_mtime\<close> are computed for the files in order; the first
  \<^verbatim>\<open>stat\<close> that raises ends the sort with its exception.\<close>

fun stat_error :: "entry list \<Rightarrow> exn option" where
  "stat_error [] = None"
| "stat_error (x # xs) = (case e_stat x of Inl e \<Rightarrow> Some e | Inr _ \<Rightarrow> stat_error xs)"

definition st_mtime :: "entry \<Rightarrow> int" where
  "st_mtime x = (case e_stat x of Inr t \<Rightarrow> t | Inl _ \<Rightarrow> 0)"

text \<open>
  \<^verbatim>\<open>print\<close> of a string that stdout cannot encode raises \<^verbatim>\<open>UnicodeEncodeError\<close>.
  Stdout is taken to encode in UTF-8, as it does under a UTF-8 locale and under the C
  locale; what it cannot encode is then a lone surrogate under the handler \<^verbatim>\<open>strict\<close>,
  and under \<^verbatim>\<open>surrogateescape\<close> one that does not stand for a byte (U+DC80 to U+DCFF
  do). What is typed comes in through stdin
  as it goes out through stdout, and the messages of the program are plain text; the
  names of the files of a directory are another matter, as bytes of a name that are not
  UTF-8 are read as lone surrogates whatever the locale.
\<close>

definition printable :: "bool \<Rightarrow> pystr \<Rightarrow> bool" where
  "printable strict s =
     (if strict then encodable s
      else list_all (\<lambda>c. c < 0xD800 \<or> 0xDFFF < c \<or> (0xDC80 \<le> c \<and> c \<le> 0xDCFF)) s)"

text \<open>
  The \<^verbatim>\<open>for\<close> loop that prints the files, from the number \<open>i\<close> on: for each file the
  modification time is converted with \<^verbatim>\<open>datetime.fromtimestamp\<close>, then the line with the
  name and the line with the time are printed (the size, which the second line also
  gives, is left out; \<open>ListedChat\<close> stands for the two lines of a file). The result is
  the exception raised, if any, and the lines printed until then. \<^verbatim>\<open>stat\<close> is called
  again here; it answers as it did for the sort.
\<close>

fun display ::
  "(int \<Rightarrow> exn option) \<Rightarrow> bool \<Rightarrow> nat \<Rightarrow> entry list \<Rightarrow> exn option \<times> console list" where
  "display convert strict i [] = (None, [])"
| "display convert strict i (filepath # chat_files) =
     (case convert (st_mtime filepath) of
        Some e \<Rightarrow> (Some e, [])
      | None \<Rightarrow>
          if printable strict (e_name filepath)
          then (case display convert strict (Suc i) chat_files of
                  (raised, printed) \<Rightarrow>
                    (raised, ListedChat i (e_name filepath) (st_mtime filepath) # printed))
          else (Some UnicodeEncodeError, []))"

text \<open>
  \<^verbatim>\<open>chat_dir.glob("*.json")\<close> keeps the entries whose name ends in \<^verbatim>\<open>.json\<close>, in the
  order of the directory. \<^verbatim>\<open>sorted(..., reverse=True)\<close> is a stable sort in descending
  order of the key: files of equal key keep the order they came in. \<^verbatim>\<open>list_saved_chats\<close>
  has no \<^verbatim>\<open>try\<close>: what \<^verbatim>\<open>stat\<close>, the conversion of a time or a \<^verbatim>\<open>print\<close> raises, it
  raises, and the names are returned only when the loop has printed them all.
\<close>

definition glob_json :: "filesystem \<Rightarrow> entry list" where
  "glob_json fs = filter (\<lambda>x. suffix (lit ''.json'') (e_name x)) (listing fs)"

definition list_saved_chats :: "bot \<Rightarrow> world \<Rightarrow> (exn + pystr list) \<times> bot \<times> world" where
  "list_saved_chats self w =
     (let globbed = glob_json (disk w) in
      case stat_error globbed of
        Some e \<Rightarrow> (Inl e, self, w)
      | None \<Rightarrow>
          let chat_files = sort_key (\<lambda>x. - st_mtime x) globbed in
          if chat_files = [] then (Inr [], self, emit [NoSavedChats] w)
          else
            (case display (fromtimestamp w) (strict_stdout w) 1 chat_files of
               (Some e, printed) \<Rightarrow> (Inl e, self, emit (SavedChatsHeader # printed) w)
             | (None, printed) \<Rightarrow>
                 (Inr (map e_name chat_files), self,
                  emit (SavedChatsHeader # printed @ [SavedChatsFooter]) w)))"

subsection \<open>Loading the model\<close>

text \<open>\<open>llama\<close> is what constructing the engine, \<^verbatim>\<open>Llama(**MODEL_CONFIG)\<close>, comes to.\<close>

definition load_model :: "exn + engine \<Rightarrow> bot \<Rightarrow> world \<Rightarrow> (exn + bool) \<times> bot \<times> world" where
  "load_model llama self w =
     (case llama of
        Inr engine \<Rightarrow> (Inr True, self\<lparr>llm := Some engine\<rparr>, emit [Loading, ModelLoaded] w)
      | Inl e \<Rightarrow>
          if e = FileNotFoundError then (Inr False, self, emit [Loading, ModelFileNotFound] w)
          else if e = KeyboardInterrupt then (Inl e, self, emit [Loading] w)
          else (Inr False, self, emit [Loading, ErrorReport e] w))"

section \<open>The command loop\<close>

text \<open>
  How one pass through the body of \<^verbatim>\<open>while True\<close> ends: with \<^verbatim>\<open>continue\<close> (or by
  reaching the end of the body), with \<^verbatim>\<open>break\<close>, or with an exception.
  \<^verbatim>\<open>show_stats\<close> and \<^verbatim>\<open>display_history\<close> only print, and \<^verbatim>\<open>int(args)\<close> raises nothing
  but the \<^verbatim>\<open>ValueError\<close> caught on the spot.
\<close>

datatype signal = Continue | Break | Raised exn

definition body :: "bot \<Rightarrow> world \<Rightarrow> signal \<times> bot \<times> world" where
  "body self w =
     (case py_input InputPrompt w of
        (Inl e, w1) \<Rightarrow> (Raised e, self, w1)
      | (Inr line, w1) \<Rightarrow>
          let user_input = py_strip line in
          if user_input = [] then (Continue, self, w1)
          else if prefix (lit ''/'') user_input then
            (case split1 (tl user_input) of
               [] \<Rightarrow> (Raised IndexError, self, w1)
             | part # parts \<Rightarrow>
                 let command = py_lower part;
                     args = (case parts of [] \<Rightarrow> None | a # _ \<Rightarrow> Some a)
                 in
                 if List.member [lit ''quit'', lit ''exit'', lit ''q''] command
                 then (Break, self, emit [Goodbye] w1)
                 else if command = lit ''help'' then (Continue, self, emit [HelpShown] w1)
                 else if command = lit ''clear'' then
                   (case clear_chat self w1 of
                      (Some e, self', w2) \<Rightarrow> (Raised e, self', w2)
                    | (None, self', w2) \<Rightarrow> (Continue, self', w2))
                 else if command = lit ''save'' then
                   (case save_chat self args w1 of
                      (Some e, self', w2) \<Rightarrow> (Raised e, self', w2)
                    | (None, self', w2) \<Rightarrow> (Continue, self', w2))
                 else if command = lit ''list'' then
                   (case list_saved_chats self w1 of
                      (Inl e, self', w2) \<Rightarrow> (Raised e, self', w2)
                    | (Inr _, self', w2) \<Rightarrow> (Continue, self', w2))
                 else if command = lit ''stats'' then (Continue, self, emit [StatsShown] w1)
                 else if command = lit ''history''
                 then (Continue, self, emit [HistoryOutput] w1)
                 else (Continue, self, emit [UnknownCommand command] w1))
          else (case chat self user_input w1 of (_, self', w2) \<Rightarrow> (Continue, self', w2)))"

text \<open>
  The loop reads at least one key in every pass that does not end it, so it comes to an
  end with the keys: when none is left, \<^verbatim>\<open>input\<close> raises \<^verbatim>\<open>EOFError\<close>.
\<close>

lemma stdin_emit [simp]: "stdin (emit ms w) = stdin w"
  by (simp add: emit_def)

lemma py_input_stdin:
  "py_input p w = (r, w') \<Longrightarrow> length (stdin w') \<le> length (stdin w)"
  by (auto simp: py_input_def Let_def split: list.splits keyboard.splits)

lemma py_input_consumes:
  "py_input p w = (r, w') \<Longrightarrow> r \<noteq> Inl EOFError \<Longrightarrow> length (stdin w') < length (stdin w)"
  by (auto simp: py_input_def Let_def split: list.splits keyboard.splits)

lemma chat_stdin: "chat self u w = (r, self', w') \<Longrightarrow> stdin w' = stdin w"
  by (auto simp: chat_def Let_def split: option.splits prod.splits sum.splits if_splits)

lemma write_file_stdin: "write_file f d w = (r, w') \<Longrightarrow> stdin w' = stdin w"
  by (auto simp: write_file_def Let_def now_def
      split: option.splits prod.splits io_fault.splits if_splits)

lemma generate_filename_stdin: "generate_filename self c w = (f, w') \<Longrightarrow> stdin w' = stdin w"
  by (auto simp: generate_filename_def Let_def now_def
      split: option.splits prod.splits if_splits)

lemma save_chat_stdin: "save_chat self c w = (r, self', w') \<Longrightarrow> stdin w' = stdin w"
  by (auto simp: save_chat_def Let_def now_def split: option.splits prod.splits if_splits
      dest!: write_file_stdin generate_filename_stdin)

lemma list_saved_chats_stdin:
  "list_saved_chats self w = (r, self', w') \<Longrightarrow> stdin w' = stdin w"
  by (auto simp: list_saved_chats_def Let_def split: option.splits prod.splits if_splits)

lemma clear_chat_stdin:
  "clear_chat self w = (r, self', w') \<Longrightarrow> length (stdin w') \<le> length (stdin w)"
  by (auto simp: clear_chat_def Let_def split: prod.splits sum.splits if_splits
      dest!: py_input_stdin)

lemma body_consumes:
  assumes "body self w = (sig, self', w')"
    and "sig = Continue \<or> sig = Raised KeyboardInterrupt"
  shows "length (stdin w') < length (stdin w)"
proof (cases "py_input InputPrompt w")
  case (Pair r w1)
  show ?thesis
  proof (cases r)
    case (Inl e)
    with Pair assms have "e = KeyboardInterrupt" and "w' = w1"
      by (auto simp: body_def)
    with Pair Inl show ?thesis
      using py_input_consumes [of InputPrompt w r w1] by simp
  next
    case (Inr line)
    with Pair have less: "length (stdin w1) < length (stdin w)"
      using py_input_consumes [of InputPrompt w r w1] by simp
    have "length (stdin w') \<le> length (stdin w1)"
      using assms(1) Pair Inr
      by (auto simp: body_def Let_def
          split: prod.splits sum.splits if_splits list.splits option.splits
          dest!: chat_stdin save_chat_stdin list_saved_chats_stdin clear_chat_stdin)
    with less show ?thesis by simp
  qed
qed

text \<open>
  The two \<^verbatim>\<open>try\<close> statements around the loop: \<^verbatim>\<open>KeyboardInterrupt\<close> is caught inside
  the loop, which goes on; any other exception leaves the loop for the handler
  \<^verbatim>\<open>except Exception\<close> outside it. The result is that exception, or \<open>None\<close> after a
  \<^verbatim>\<open>break\<close>.
\<close>

function main_loop :: "bot \<Rightarrow> world \<Rightarrow> exn option \<times> bot \<times> world" where
  "main_loop self w =
     (case body self w of
        (Continue, self', w') \<Rightarrow> main_loop self' w'
      | (Break, self', w') \<Rightarrow> (None, self', w')
      | (Raised e, self', w') \<Rightarrow>
          if e = KeyboardInterrupt then main_loop self' (emit [TypeQuit] w')
          else (Some e, self', w'))"
  by pat_completeness auto
termination
proof (relation "measure (\<lambda>(self, w). length (stdin w))")
  show "wf (measure (\<lambda>(self, w). length (stdin w)))"
    by simp
next
  fix self w sig y self' w'
  assume "(sig, y) = body self w" "sig = Continue" "(self', w') = y"
  then have "body self w = (Continue, self', w')"
    by simp
  then have "length (stdin w') < length (stdin w)"
    by (rule body_consumes) simp
  then show "((self', w'), self, w) \<in> measure (\<lambda>(self, w). length (stdin w))"
    by simp
next
  fix self w sig y e self' w'
  assume "(sig, y) = body self w" "sig = Raised e" "(self', w') = y"
    "e = KeyboardInterrupt"
  then have "body self w = (Raised KeyboardInterrupt, self', w')"
    by simp
  then have "length (stdin w') < length (stdin w)"
    by (rule body_consumes) simp
  then show "((self', emit [TypeQuit] w'), self, w)
      \<in> measure (\<lambda>(self, w). length (stdin w))"
    by simp
qed

section \<open>The program\<close>

text \<open>
  What \<^verbatim>\<open>main\<close> finds when it starts: whether the model file exists, what constructing
  \<^verbatim>\<open>ChatBot\<close> raises (the time zone lookup and the \<^verbatim>\<open>mkdir\<close> of the history directory
  are not guarded), and what constructing the engine comes to. The process ends with an
  exit status, or with the traceback of an exception nothing caught.
\<close>

record startup =
  model_exists :: bool
  init_error :: "exn option"
  llama :: "exn + engine"

datatype ending = Exit nat | Traceback exn

text \<open>The \<^verbatim>\<open>finally\<close> block, after which \<^verbatim>\<open>main\<close> returns and the process exits
  with status 0; nothing catches what \<^verbatim>\<open>input\<close> or \<^verbatim>\<open>save_chat\<close> raises there.\<close>

definition cleanup :: "bot \<Rightarrow> world \<Rightarrow> ending \<times> world" where
  "cleanup chatbot w =
     (if chat_history chatbot = [] then (Exit 0, w)
      else
        case py_input SavePrompt w of
          (Inl e, w1) \<Rightarrow> (Traceback e, w1)
        | (Inr answer, w1) \<Rightarrow>
            let save = py_lower (py_strip answer) in
            if save = lit ''y'' then
              (case save_chat chatbot None w1 of
                 (Some e, chatbot', w2) \<Rightarrow> (Traceback e, w2)
               | (None, chatbot', w2) \<Rightarrow> (Exit 0, w2))
            else (Exit 0, w1))"

definition main :: "startup \<Rightarrow> world \<Rightarrow> ending \<times> world" where
  "main env w =
     (let w0 = emit [Banner] w in
      if \<not> model_exists env then (Exit 1, emit [ModelMissing] w0)
      else
        case init_error env of
          Some e \<Rightarrow> (Traceback e, w0)
        | None \<Rightarrow>
            (case load_model (llama env) ChatBot w0 of
               (Inl e, chatbot, w1) \<Rightarrow> (Traceback e, w1)
             | (Inr False, chatbot, w1) \<Rightarrow> (Exit 1, w1)
             | (Inr True, chatbot, w1) \<Rightarrow>
                 (case main_loop chatbot w1 of
                    (None, chatbot', w2) \<Rightarrow> cleanup chatbot' w2
                  | (Some e, chatbot', w2) \<Rightarrow>
                      cleanup chatbot' (emit [UnexpectedError e] w2))))"

section \<open>Notions the properties are stated with\<close>

text \<open>Generation fails: the stream raised, or the response, trimmed, is empty or shorter
  than two characters.\<close>

definition generation_fails :: "exn + pystr \<Rightarrow> bool" where
  "generation_fails result =
     (case result of
        Inl e \<Rightarrow> True
      | Inr response \<Rightarrow> py_strip response = [] \<or> length (py_strip response) < 2)"

text \<open>The caller confirms: the next key is a line that reads \<^verbatim>\<open>y\<close> or \<^verbatim>\<open>Y\<close> once
  trimmed.\<close>

definition confirms :: "keyboard list \<Rightarrow> bool" where
  "confirms keys =
     (case keys of
        Line answer # _ \<Rightarrow> List.member [lit ''y'', lit ''Y''] (py_strip answer)
      | _ \<Rightarrow> False)"

text \<open>A sequence of calls of \<^verbatim>\<open>chat\<close>, one for each input, with the replies they
  return; and the messages that inputs and replies amount to, an input without a reply
  leaving none.\<close>

fun chats :: "bot \<Rightarrow> pystr list \<Rightarrow> world \<Rightarrow> pystr option list \<times> bot \<times> world" where
  "chats self [] w = ([], self, w)"
| "chats self (user_input # inputs) w =
     (case chat self user_input w of
        (reply, self1, w1) \<Rightarrow>
          (case chats self1 inputs w1 of
             (replies, self2, w2) \<Rightarrow> (reply # replies, self2, w2)))"

fun exchanges :: "(pystr \<times> pystr option) list \<Rightarrow> msg list" where
  "exchanges [] = []"
| "exchanges ((user_input, None) # rest) = exchanges rest"
| "exchanges ((user_input, Some reply) # rest) =
     \<lparr>role = lit ''user'', content = user_input\<rparr>
     # \<lparr>role = lit ''assistant'', content = reply\<rparr> # exchanges rest"

text \<open>The shape \<^verbatim>\<open>YYYYMMDD_HHMMSS\<close>: eight digits, an underscore, six digits.\<close>

definition digit :: "nat \<Rightarrow> bool" where
  "digit c = (0x30 \<le> c \<and> c \<le> 0x39)"

definition timestamp_shaped :: "pystr \<Rightarrow> bool" where
  "timestamp_shaped s =
     (length s = 15 \<and> list_all digit (take 8 s) \<and> s ! 8 = 0x5F \<and> list_all digit (drop 9 s))"

text \<open>The record \<^verbatim>\<open>save_chat\<close> writes for a chatbot at a time.\<close>

definition the_data :: "bot \<Rightarrow> instant \<Rightarrow> save_data" where
  "the_data self t =
     \<lparr>timestamp = t, saved_prompt = system_prompt self, messages = chat_history self\<rparr>"

section \<open>Sample values\<close>

text \<open>A clock that stands still, an empty history directory on a file system without
  faults, a conversion of times that refuses those outside the years 1 to 9999 (in
  seconds since 1970), a world with nothing typed and nothing printed, a generation event
  with one choice, and a chatbot with a short system prompt.\<close>

definition still :: "nat \<Rightarrow> instant" where
  "still n = \<lparr>stamp = int n, t_year = 2024, t_month = 1, t_day = 2, t_hour = 3,
     t_minute = 4, t_second = 5\<rparr>"

definition empty_disk :: filesystem where
  "empty_disk =
     \<lparr>listing = [], faults = (\<lambda>_. None), denotes = (\<lambda>_. None), slot = (\<lambda>_. 0)\<rparr>"

definition calendar :: "int \<Rightarrow> exn option" where
  "calendar t = (if - 62135596800 \<le> t \<and> t \<le> 253402300799 then None else Some ValueError)"

definition quiet :: world where
  "quiet = \<lparr>stdin = [], stdout = [], ticks = 0, clock = still, disk = empty_disk,
     requests = 0, fromtimestamp = calendar, strict_stdout = True\<rparr>"

definition fragment :: "pystr \<Rightarrow> pystr option \<Rightarrow> event" where
  "fragment t f = Yield \<lparr>choices = Some [\<lparr>choice_text = Some t, finish_reason = f\<rparr>]\<rparr>"

definition helpful :: bot where
  "helpful = ChatBot\<lparr>system_prompt := lit ''You are helpful.''\<rparr>"

text \<open>An engine that answers with white space only, one that greets, one that sends text
  after the stop marker in the same fragment, and a chatbot with one message and a file
  name.\<close>

definition silent :: engine where
  "silent n prompt = [fragment (lit ''  '') None, fragment (lit ''<|eot_id|>'') None]"

definition greeter :: engine where
  "greeter n prompt =
     [fragment (lit ''Hel'') None, fragment (lit ''lo'') None, fragment (lit ''!'') None,
      fragment (lit ''<|eot_id|>'') None]"

definition trailing :: engine where
  "trailing n prompt = [fragment (lit ''Hello<|eot_id|> world'') None, fragment (lit ''!'') None]"

definition asked :: bot where
  "asked = append_msg (lit ''user'') (lit ''Hi'') (helpful\<lparr>current_chat_file := Some (lit ''a.json'')\<rparr>)"

text \<open>A chatbot whose one message holds a lone surrogate, and one with a message and
  no file name.\<close>

definition garbled :: bot where
  "garbled = append_msg (lit ''user'') [0x48, 0xDC80] helpful"

definition fresh :: bot where
  "fresh = append_msg (lit ''user'') (lit ''Hi'') helpful"

text \<open>A world whose history directory holds the given entries; an entry last modified at
  a given time; an entry that \<^verbatim>\<open>stat\<close> fails on, as a dangling symbolic link; an entry
  whose name has a byte that is not UTF-8, read as a lone surrogate; and a start with the
  model file in place and an engine that loads.\<close>

definition shelf :: "entry list \<Rightarrow> world" where
  "shelf entries = quiet\<lparr>disk := empty_disk\<lparr>listing := entries\<rparr>\<rparr>"

definition aged :: "string \<Rightarrow> int \<Rightarrow> entry" where
  "aged n t = \<lparr>e_name = lit n, e_stat = Inr t, e_holds = Other\<rparr>"

definition dangling :: "string \<Rightarrow> entry" where
  "dangling n = \<lparr>e_name = lit n, e_stat = Inl FileNotFoundError, e_holds = Other\<rparr>"

definition escaped :: entry where
  "escaped = \<lparr>e_name = [0x78, 0xDC80] @ lit ''.json'', e_stat = Inr 0, e_holds = Other\<rparr>"

definition ready :: startup where
  "ready = \<lparr>model_exists = True, init_error = None, llama = Inr greeter\<rparr>"

section \<open>Properties\<close>

subsection \<open>Prompt formatting\<close>

lemma foldl_append_concat:
  "foldl (\<lambda>formatted m. formatted @ f m) init ms = init @ concat (map f ms)"
  by (induction ms arbitrary: init) simp_all

lemma suffix_last: "suffix ys zs \<Longrightarrow> ys \<noteq> [] \<Longrightarrow> last ys = last zs"
  by (auto simp: suffix_def)

text \<open>
  Claim C4. Whatever the system prompt and the messages of the history, the prompt sent to
  the engine begins with \<^verbatim>\<open><|begin_of_text|>\<close> and ends with the assistant header, left
  open: the prompt does not end with the end-of-turn marker.
\<close>

theorem prompt_shape:
  "prefix (lit ''<|begin_of_text|>'') (build_prompt self)
   \<and> suffix (lit ''<|start_header_id|>assistant<|end_header_id|>\<newline>\<newline>'')
       (build_prompt self)
   \<and> \<not> suffix EOT (build_prompt self)"
proof -
  have "build_prompt self =
      lit ''<|begin_of_text|>''
      @ (lit ''<|start_header_id|>system<|end_header_id|>\<newline>\<newline>''
         @ system_prompt self @ lit ''<|eot_id|>''
         @ concat (map format_msg (chat_history self)) @ assistant_header)"
    by (simp add: build_prompt_def format_chat_history_def foldl_append_concat lit_def)
  then have p: "prefix (lit ''<|begin_of_text|>'') (build_prompt self)"
    by (metis prefixI)
  have s: "suffix assistant_header (build_prompt self)"
    by (simp add: build_prompt_def suffix_def)
  have "last (build_prompt self) = 10"
    by (simp add: build_prompt_def assistant_header_def lit_def)
  moreover have "last EOT = 62" and "EOT \<noteq> []"
    by (simp_all add: EOT_def lit_def)
  ultimately have "\<not> suffix EOT (build_prompt self)"
    using suffix_last [of EOT "build_prompt self"] by auto
  with p s show ?thesis
    by (simp add: assistant_header_def)
qed

subsection \<open>Saving\<close>

text \<open>
  Claim C10. Saving a conversation without messages does nothing but print the warning:
  the chatbot, its file name included, and the file system are as they were.
\<close>

theorem save_empty_is_noop:
  assumes "chat_history self = []"
  shows "save_chat self custom_filename w
     = (None, self, w\<lparr>stdout := stdout w @ [NoChatToSave]\<rparr>)"
  using assms by (simp add: save_chat_def emit_def)

theorem save_empty_is_noop_witness:
  "save_chat ChatBot (Some (lit ''notes'')) quiet
     = (None, ChatBot, quiet\<lparr>stdout := [NoChatToSave]\<rparr>)
   \<and> disk (snd (snd (save_chat ChatBot (Some (lit ''notes'')) quiet))) = empty_disk
   \<and> current_chat_file (fst (snd (save_chat ChatBot (Some (lit ''notes'')) quiet))) = None"
proof -
  have "chat_history ChatBot = []"
    by (simp add: ChatBot_def)
  from save_empty_is_noop [OF this, of "Some (lit ''notes'')" quiet]
  show ?thesis
    by (simp add: quiet_def ChatBot_def)
qed

subsection \<open>Consuming the generation stream\<close>

text \<open>\<open>contains\<close> is the substring test.\<close>

lemma contains_iff: "contains old s \<longleftrightarrow> (\<exists>before after. s = before @ old @ after)"
proof (induction s)
  case Nil
  then show ?case by auto
next
  case (Cons c cs)
  show ?case
  proof
    assume "contains old (c # cs)"
    then consider "prefix old (c # cs)" | "contains old cs" by auto
    then show "\<exists>before after. c # cs = before @ old @ after"
    proof cases
      case 1
      then obtain after where "c # cs = old @ after" by (auto simp: prefix_def)
      then have "c # cs = [] @ old @ after" by simp
      then show ?thesis by blast
    next
      case 2
      with Cons obtain before after where "cs = before @ old @ after" by auto
      then have "c # cs = (c # before) @ old @ after" by simp
      then show ?thesis by blast
    qed
  next
    assume "\<exists>before after. c # cs = before @ old @ after"
    then obtain before after where eq: "c # cs = before @ old @ after" by auto
    show "contains old (c # cs)"
    proof (cases before)
      case Nil
      with eq have "prefix old (c # cs)" by (simp add: prefix_def)
      then show ?thesis by simp
    next
      case (Cons b bs)
      with eq have "cs = bs @ old @ after" by simp
      with Cons.IH have "contains old cs" by blast
      then show ?thesis by simp
    qed
  qed
qed

text \<open>
  Claim C1. At a fragment with the stop marker \<^verbatim>\<open>chat\<close> leaves the loop: the response
  ends there. Yet \<^verbatim>\<open>token.replace("<|eot_id|>", "")\<close> only deletes the marker, so the
  text that follows it in the same fragment stays in the response, where the claim has
  everything from the marker onward stripped: \<^verbatim>\<open>a<|eot_id|>b\<close> adds \<^verbatim>\<open>ab\<close>, not
  \<^verbatim>\<open>a\<close>, and what the engine sent after the marker ends up in the assistant message.
  The events that follow the fragment are not consumed.
\<close>

theorem text_after_marker_is_kept:
  "contains EOT (lit ''a<|eot_id|>b'')
   \<and> consume [fragment (lit ''a<|eot_id|>b'') None, fragment (lit ''c'') None] [] []
       = (Inr (lit ''ab''), [Token (lit ''ab'')])
   \<and> consume [fragment (lit ''a<|eot_id|>b<|eot_id|>c'') None] [] []
       = (Inr (lit ''abc''), [Token (lit ''abc'')])
   \<and> fst (chat (helpful\<lparr>llm := Some trailing\<rparr>) (lit ''Hi'') quiet) = Some (lit ''Hello world'')
   \<and> chat_history (fst (snd (chat (helpful\<lparr>llm := Some trailing\<rparr>) (lit ''Hi'') quiet)))
       = [\<lparr>role = lit ''user'', content = lit ''Hi''\<rparr>,
          \<lparr>role = lit ''assistant'', content = lit ''Hello world''\<rparr>]"
  by (simp add: chat_def trailing_def fragment_def helpful_def ChatBot_def append_msg_def
      py_strip_def isspace_def EOT_def lit_def Let_def)

subsection \<open>One exchange\<close>

lemma pop_last_append_msg: "pop_last (append_msg r c self) = self"
  by (simp add: pop_last_def append_msg_def)

text \<open>
  Claim C2. When generation fails (the stream raises \<^verbatim>\<open>KeyboardInterrupt\<close> or any
  other exception, or the trimmed response is empty or shorter than two characters),
  \<^verbatim>\<open>chat\<close> returns \<open>None\<close> and the chatbot is as it was before the call: the user
  message is gone again, no assistant message was added, the history has the length it
  had. The command loop goes on: the pass that made the call ends with \<open>Continue\<close>.
\<close>

theorem failed_generation_rolls_back:
  assumes "llm self = Some engine"
    and "consume (engine (requests w) (build_prompt (append_msg (lit ''user'') user_input self)))
           [] [BotMark] = (result, out)"
    and "generation_fails result"
  shows "fst (chat self user_input w) = None
    \<and> fst (snd (chat self user_input w)) = self
    \<and> length (chat_history (fst (snd (chat self user_input w)))) = length (chat_history self)
    \<and> (\<forall>w0 line. py_input InputPrompt w0 = (Inr line, w) \<and> py_strip line = user_input
          \<and> user_input \<noteq> [] \<and> \<not> prefix (lit ''/'') user_input
        \<longrightarrow> fst (body self w0) = Continue \<and> fst (snd (body self w0)) = self)"
proof -
  have c: "fst (chat self user_input w) = None \<and> fst (snd (chat self user_input w)) = self"
    using assms
    by (auto simp: chat_def Let_def generation_fails_def pop_last_append_msg split: sum.splits)
  have "fst (body self w0) = Continue \<and> fst (snd (body self w0)) = self"
    if "py_input InputPrompt w0 = (Inr line, w)" "py_strip line = user_input"
      "user_input \<noteq> []" "\<not> prefix (lit ''/'') user_input" for w0 line
    using that c by (auto simp: body_def Let_def split: prod.splits)
  with c show ?thesis by auto
qed

theorem failed_generation_rolls_back_witness:
  "llm (helpful\<lparr>llm := Some silent\<rparr>) = Some silent
   \<and> generation_fails (Inr (lit ''  ''))
   \<and> generation_fails (Inl KeyboardInterrupt)
   \<and> fst (chat (helpful\<lparr>llm := Some silent\<rparr>) (lit ''Hi'') quiet) = None
   \<and> fst (snd (chat (helpful\<lparr>llm := Some silent\<rparr>) (lit ''Hi'') quiet))
       = helpful\<lparr>llm := Some silent\<rparr>"
proof -
  let ?b = "helpful\<lparr>llm := Some silent\<rparr>"
  have l: "llm ?b = Some silent"
    by simp
  have c: "consume (silent (requests quiet)
        (build_prompt (append_msg (lit ''user'') (lit ''Hi'') ?b))) [] [BotMark]
      = (Inr (lit ''  ''), [BotMark, Token (lit ''  '')])"
    by (simp add: silent_def fragment_def EOT_def lit_def Let_def)
  have g: "generation_fails (Inr (lit ''  ''))"
    by (simp add: generation_fails_def py_strip_def isspace_def lit_def)
  have k: "generation_fails (Inl KeyboardInterrupt)"
    by (simp add: generation_fails_def)
  from failed_generation_rolls_back [OF l c g] l g k show ?thesis
    by blast
qed

subsection \<open>Sequences of exchanges\<close>

lemma chat_history_step:
  "chat self user_input w = (reply, self', w') \<Longrightarrow>
   chat_history self' = chat_history self @ exchanges [(user_input, reply)]"
  by (auto simp: chat_def Let_def pop_last_def append_msg_def
      split: option.splits prod.splits sum.splits if_splits)

lemma exchanges_append: "exchanges (xs @ ys) = exchanges xs @ exchanges ys"
  by (induction xs rule: exchanges.induct) simp_all

lemma chats_history:
  "chats self inputs w = (replies, self', w') \<Longrightarrow>
   length replies = length inputs
   \<and> chat_history self' = chat_history self @ exchanges (zip inputs replies)"
proof (induction inputs arbitrary: self w replies self' w')
  case Nil
  then show ?case by simp
next
  case (Cons u us)
  obtain r self1 w1 where c: "chat self u w = (r, self1, w1)"
    by (metis prod_cases3)
  obtain rs self2 w2 where cs: "chats self1 us w1 = (rs, self2, w2)"
    by (metis prod_cases3)
  from Cons.prems c cs have eq: "replies = r # rs" "self' = self2"
    by simp_all
  from Cons.IH [OF cs] chat_history_step [OF c] eq show ?case
    by (cases r) simp_all
qed

lemma exchanges_successful:
  "length inputs = length replies \<Longrightarrow> list_all (\<lambda>r. r \<noteq> None) replies \<Longrightarrow>
   map role (exchanges (zip inputs replies))
     = concat (replicate (length inputs) [lit ''user'', lit ''assistant''])"
  by (induction inputs replies rule: list_induct2) auto

lemma exchanges_last:
  "exchanges xs = [] \<or> role (last (exchanges xs)) = lit ''assistant''"
  by (induction xs rule: exchanges.induct) auto

text \<open>
  Claim C3. Starting from an empty history, after any sequence of calls of \<^verbatim>\<open>chat\<close>
  that all return a response the history has twice as many messages as there were calls,
  with the roles user, assistant, user, assistant, ...; and after any sequence of calls,
  failed ones included, the history is empty or ends with an assistant message.
\<close>

theorem chats_alternate:
  assumes "chat_history self = []"
    and "chats self inputs w = (replies, self', w')"
  shows "(list_all (\<lambda>r. r \<noteq> None) replies \<longrightarrow>
            length (chat_history self') = 2 * length inputs
            \<and> map role (chat_history self')
                = concat (replicate (length inputs) [lit ''user'', lit ''assistant'']))
         \<and> (chat_history self' = [] \<or> role (last (chat_history self')) = lit ''assistant'')"
proof -
  from chats_history [OF assms(2)] assms(1)
  have len: "length replies = length inputs"
    and h: "chat_history self' = exchanges (zip inputs replies)"
    by simp_all
  have "map role (chat_history self')
      = concat (replicate (length inputs) [lit ''user'', lit ''assistant''])"
    if "list_all (\<lambda>r. r \<noteq> None) replies"
    using exchanges_successful [OF len [symmetric] that] h by simp
  moreover have "length (concat (replicate n [a, b])) = 2 * n" for n and a b :: pystr
    by (induction n) simp_all
  ultimately have "list_all (\<lambda>r. r \<noteq> None) replies \<longrightarrow>
            length (chat_history self') = 2 * length inputs
            \<and> map role (chat_history self')
                = concat (replicate (length inputs) [lit ''user'', lit ''assistant''])"
    by (metis length_map)
  with exchanges_last [of "zip inputs replies"] h show ?thesis
    by simp
qed

theorem chats_alternate_witness:
  "chat_history (helpful\<lparr>llm := Some greeter\<rparr>) = []
   \<and> fst (chats (helpful\<lparr>llm := Some greeter\<rparr>) [lit ''Hi'', lit ''Again''] quiet)
       = [Some (lit ''Hello!''), Some (lit ''Hello!'')]
   \<and> chat_history (fst (snd (chats (helpful\<lparr>llm := Some greeter\<rparr>) [lit ''Hi'', lit ''Again''] quiet)))
       = [\<lparr>role = lit ''user'', content = lit ''Hi''\<rparr>,
          \<lparr>role = lit ''assistant'', content = lit ''Hello!''\<rparr>,
          \<lparr>role = lit ''user'', content = lit ''Again''\<rparr>,
          \<lparr>role = lit ''assistant'', content = lit ''Hello!''\<rparr>]
   \<and> length (chat_history (fst (snd (chats (helpful\<lparr>llm := Some greeter\<rparr>) [lit ''Hi'', lit ''Again''] quiet)))) = 4"
proof -
  let ?b = "helpful\<lparr>llm := Some greeter\<rparr>"
  have e: "chat_history ?b = []"
    by (simp add: helpful_def ChatBot_def)
  have g: "consume (greeter n p) [] [BotMark]
      = (Inr (lit ''Hello!''), [BotMark, Token (lit ''Hel''), Token (lit ''lo''), Token (lit ''!'')])" for n p
    by (simp add: greeter_def fragment_def EOT_def lit_def Let_def)
  have s: "py_strip (lit ''Hello!'') = lit ''Hello!''"
    by (simp add: py_strip_def isspace_def lit_def)
  have c: "llm b = Some greeter \<Longrightarrow> chat b u w
      = (Some (lit ''Hello!''), append_msg (lit ''assistant'') (lit ''Hello!'') (append_msg (lit ''user'') u b),
         emit [Newline] (emit [BotMark, Token (lit ''Hel''), Token (lit ''lo''), Token (lit ''!'')]
           (w\<lparr>requests := Suc (requests w)\<rparr>)))" for b u w
    by (simp add: chat_def g s Let_def) (simp add: lit_def)
  have "\<exists>w'. chats ?b [lit ''Hi'', lit ''Again''] quiet
      = ([Some (lit ''Hello!''), Some (lit ''Hello!'')],
         append_msg (lit ''assistant'') (lit ''Hello!'') (append_msg (lit ''user'') (lit ''Again'')
           (append_msg (lit ''assistant'') (lit ''Hello!'') (append_msg (lit ''user'') (lit ''Hi'') ?b))),
         w')"
    by (simp add: c append_msg_def)
  then obtain w' where r: "chats ?b [lit ''Hi'', lit ''Again''] quiet
      = ([Some (lit ''Hello!''), Some (lit ''Hello!'')],
         append_msg (lit ''assistant'') (lit ''Hello!'') (append_msg (lit ''user'') (lit ''Again'')
           (append_msg (lit ''assistant'') (lit ''Hello!'') (append_msg (lit ''user'') (lit ''Hi'') ?b))),
         w')"
    by blast
  have a: "list_all (\<lambda>r. r \<noteq> None) [Some (lit ''Hello!''), Some (lit ''Hello!'')]"
    by simp
  from chats_alternate [OF e r] a e show ?thesis
    unfolding r by (simp add: append_msg_def helpful_def ChatBot_def)
qed

subsection \<open>Clearing\<close>

lemma py_lower_is_y: "py_lower s = lit ''y'' \<longleftrightarrow> s = lit ''y'' \<or> s = lit ''Y''"
proof
  assume a: "py_lower s = lit ''y''"
  have len: "length (lower_cp c) \<ge> 1" for c by (simp add: lower_cp_def)
  have ne: "lower_cp c \<noteq> []" for c by (simp add: lower_cp_def)
  show "s = lit ''y'' \<or> s = lit ''Y''"
  proof (cases s)
    case Nil
    with a show ?thesis by (simp add: py_lower_def lit_def)
  next
    case (Cons c cs)
    with a have eq: "lower_cp c @ py_lower cs = [121]"
      by (simp add: py_lower_def lit_def)
    then have "length (lower_cp c) + length (py_lower cs) = 1"
      by (metis length_append length_Cons list.size(3) One_nat_def)
    with len [of c] have "length (py_lower cs) = 0" by linarith
    then have nil: "py_lower cs = []" by simp
    then have "cs = []"
      using ne by (cases cs) (simp_all add: py_lower_def)
    moreover from eq nil have "lower_cp c = [121]" by simp
    then have "c = 121 \<or> c = 89"
      by (auto simp: lower_cp_def split: if_splits)
    ultimately show ?thesis using Cons by (auto simp: lit_def)
  qed
next
  assume "s = lit ''y'' \<or> s = lit ''Y''"
  then show "py_lower s = lit ''y''"
    by (auto simp: py_lower_def lower_cp_def lit_def)
qed

text \<open>
  Claim C7. With a history that is not empty, \<^verbatim>\<open>clear_chat\<close> empties the history and
  drops the file name when the caller confirms, and leaves the chatbot as it was
  otherwise (any other answer, an interrupt, the end of input).
\<close>

theorem clear_needs_confirmation:
  assumes "chat_history self \<noteq> []"
  shows "fst (snd (clear_chat self w)) =
     (if confirms (stdin w) then self\<lparr>chat_history := [], current_chat_file := None\<rparr>
      else self)"
  using assms
  by (auto simp: clear_chat_def py_input_def confirms_def Let_def py_lower_is_y emit_def
      split: list.splits keyboard.splits)

theorem clear_needs_confirmation_witness:
  "chat_history asked \<noteq> []
   \<and> fst (snd (clear_chat asked (quiet\<lparr>stdin := [Line (lit '' Y '')]\<rparr>)))
       = asked\<lparr>chat_history := [], current_chat_file := None\<rparr>
   \<and> fst (snd (clear_chat asked (quiet\<lparr>stdin := [Line (lit ''yes'')]\<rparr>))) = asked
   \<and> fst (snd (clear_chat asked (quiet\<lparr>stdin := [CtrlC]\<rparr>))) = asked"
proof -
  have h: "chat_history asked \<noteq> []"
    by (simp add: asked_def append_msg_def)
  have "confirms (stdin (quiet\<lparr>stdin := [Line (lit '' Y '')]\<rparr>))"
    by (simp add: confirms_def py_strip_def isspace_def lit_def)
  moreover have "\<not> confirms (stdin (quiet\<lparr>stdin := [Line (lit ''yes'')]\<rparr>))"
    by (simp add: confirms_def py_strip_def isspace_def lit_def)
  moreover have "\<not> confirms (stdin (quiet\<lparr>stdin := [CtrlC]\<rparr>))"
    by (simp add: confirms_def)
  ultimately show ?thesis
    using h clear_needs_confirmation [OF h, of "quiet\<lparr>stdin := [Line (lit '' Y '')]\<rparr>"]
      clear_needs_confirmation [OF h, of "quiet\<lparr>stdin := [Line (lit ''yes'')]\<rparr>"]
      clear_needs_confirmation [OF h, of "quiet\<lparr>stdin := [CtrlC]\<rparr>"]
    by simp
qed

subsection \<open>The file name of a save\<close>

lemma strftime_shaped: "timestamp_shaped (strftime t)"
proof -
  have "n mod 10 \<le> 9" for n :: nat
    by (simp add: Suc_leI less_Suc_eq_le [symmetric])
  then show ?thesis
    by (simp add: timestamp_shaped_def strftime_def dec2_def dec4_def digit_def lit_def)
qed

lemma generate_filename_nonempty: "fst (generate_filename self custom_filename w) \<noteq> []"
  by (auto simp: generate_filename_def falsy_def Let_def now_def lit_def
      split: option.splits if_splits)

lemma generate_filename_json:
  "falsy (current_chat_file self) \<or> \<not> falsy custom_filename \<Longrightarrow>
   suffix (lit ''.json'') (fst (generate_filename self custom_filename w))"
  by (auto simp: generate_filename_def falsy_def Let_def now_def suffix_def
      split: option.splits if_splits)

text \<open>
  Claim C5. For a conversation with messages, \<^verbatim>\<open>save_chat\<close> takes the explicit name when
  one is given (with \<^verbatim>\<open>.json\<close> appended unless the name ends with it), else the name the
  conversation is associated with, else \<^verbatim>\<open>chat_\<close>, the current date and time as
  \<^verbatim>\<open>YYYYMMDD_HHMMSS\<close>, and \<^verbatim>\<open>.json\<close>. When the write succeeds the conversation is
  associated with that name, and a later save without a name settles on the same name.
\<close>

theorem save_name_resolution:
  assumes "chat_history self \<noteq> []"
    and "generate_filename self custom_filename w = (filename, w1)"
  shows "(\<forall>custom. custom_filename = Some custom \<and> custom \<noteq> [] \<longrightarrow>
            filename = (if suffix (lit ''.json'') custom then custom else custom @ lit ''.json''))
    \<and> (\<forall>current. falsy custom_filename \<and> current_chat_file self = Some current \<and> current \<noteq> []
          \<longrightarrow> filename = current)
    \<and> (falsy custom_filename \<and> falsy (current_chat_file self) \<longrightarrow>
          filename = lit ''chat_'' @ strftime (clock w (ticks w)) @ lit ''.json''
          \<and> timestamp_shaped (strftime (clock w (ticks w))))
    \<and> (\<forall>t w2 w3. now w1 = (t, w2) \<and> write_file filename (the_data self t) w2 = (None, w3) \<longrightarrow>
          save_chat self custom_filename w
            = (None, self\<lparr>current_chat_file := Some filename\<rparr>, emit [ChatSaved filename] w3)
          \<and> (\<forall>w'. fst (generate_filename (self\<lparr>current_chat_file := Some filename\<rparr>) None w')
                = filename))"
proof -
  have 1: "filename = (if suffix (lit ''.json'') custom then custom else custom @ lit ''.json'')"
    if "custom_filename = Some custom" "custom \<noteq> []" for custom
    using that assms(2) by (simp add: generate_filename_def falsy_def)
  have 2: "filename = current"
    if "falsy custom_filename" "current_chat_file self = Some current" "current \<noteq> []" for current
    using that assms(2) by (simp add: generate_filename_def falsy_def)
  have 3: "filename = lit ''chat_'' @ strftime (clock w (ticks w)) @ lit ''.json''"
    if "falsy custom_filename" "falsy (current_chat_file self)"
    using that assms(2) by (auto simp: generate_filename_def now_def)
  have ne: "filename \<noteq> []"
    using generate_filename_nonempty [of self custom_filename w] assms(2) by simp
  have 4: "save_chat self custom_filename w
            = (None, self\<lparr>current_chat_file := Some filename\<rparr>, emit [ChatSaved filename] w3)"
    if "now w1 = (t, w2)" "write_file filename (the_data self t) w2 = (None, w3)" for t w2 w3
    using that assms by (simp add: save_chat_def the_data_def)
  have 5: "fst (generate_filename (self\<lparr>current_chat_file := Some filename\<rparr>) None w') = filename"
    for w'
    using ne by (simp add: generate_filename_def falsy_def)
  from 1 2 3 4 5 strftime_shaped show ?thesis
    by blast
qed

theorem save_name_resolution_witness:
  "chat_history asked \<noteq> [] \<and> chat_history fresh \<noteq> []
   \<and> fst (generate_filename asked (Some (lit ''notes'')) quiet) = lit ''notes.json''
   \<and> fst (generate_filename asked (Some (lit ''notes.json'')) quiet) = lit ''notes.json''
   \<and> fst (generate_filename asked None quiet) = lit ''a.json''
   \<and> fst (generate_filename fresh None quiet) = lit ''chat_20240102_030405.json''
   \<and> current_chat_file (fst (snd (save_chat asked (Some (lit ''notes'')) quiet)))
       = Some (lit ''notes.json'')
   \<and> fst (generate_filename (fst (snd (save_chat asked (Some (lit ''notes'')) quiet))) None quiet)
       = lit ''notes.json''"
proof -
  have h: "chat_history asked \<noteq> []" "chat_history fresh \<noteq> []"
    by (simp_all add: asked_def fresh_def append_msg_def)
  have c: "current_chat_file asked = Some (lit ''a.json'')" "lit ''a.json'' \<noteq> []"
    "falsy (current_chat_file fresh)" "falsy None"
    by (simp_all add: asked_def fresh_def append_msg_def helpful_def ChatBot_def falsy_def lit_def)
  have s: "\<not> suffix (lit ''.json'') (lit ''notes'')" "suffix (lit ''.json'') (lit ''notes.json'')"
    "lit ''notes'' \<noteq> []" "lit ''notes.json'' \<noteq> []" "lit ''notes'' @ lit ''.json'' = lit ''notes.json''"
    by (simp_all add: lit_def suffix_to_prefix)
  obtain f1 w1 where g1: "generate_filename asked (Some (lit ''notes'')) quiet = (f1, w1)"
    by fastforce
  obtain f2 w2 where g2: "generate_filename asked (Some (lit ''notes.json'')) quiet = (f2, w2)"
    by fastforce
  obtain f3 w3 where g3: "generate_filename asked None quiet = (f3, w3)"
    by fastforce
  obtain f4 w4 where g4: "generate_filename fresh None quiet = (f4, w4)"
    by fastforce
  have t: "lit ''chat_'' @ strftime (clock quiet (ticks quiet)) @ lit ''.json''
      = lit ''chat_20240102_030405.json''"
    by (simp add: quiet_def still_def strftime_def dec2_def dec4_def lit_def)
  have f1: "f1 = lit ''notes.json''"
    using save_name_resolution [OF h(1) g1] s by simp
  have f2: "f2 = lit ''notes.json''"
    using save_name_resolution [OF h(1) g2] s by simp
  have f3: "f3 = lit ''a.json''"
    using save_name_resolution [OF h(1) g3] c by simp
  have f4: "f4 = lit ''chat_20240102_030405.json''"
    using save_name_resolution [OF h(2) g4] c t by simp
  have w1: "w1 = quiet"
    using g1 s(3) by (simp add: generate_filename_def falsy_def split: if_splits)
  have "serialisable (the_data asked (still 0))"
    by (simp add: serialisable_def the_data_def asked_def append_msg_def helpful_def ChatBot_def
        encodable_def lit_def)
  then have "\<exists>w3. write_file (lit ''notes.json'') (the_data asked (still 0)) (snd (now quiet))
      = (None, w3)"
    by (simp add: write_file_def now_def quiet_def empty_disk_def Let_def lit_def
        split: prod.splits)
  then obtain w5 where w: "now w1 = (still 0, snd (now quiet))
      \<and> write_file f1 (the_data asked (still 0)) (snd (now quiet)) = (None, w5)"
    unfolding f1 w1 by (auto simp: now_def quiet_def)
  from save_name_resolution [OF h(1) g1] w
  have "save_chat asked (Some (lit ''notes'')) quiet
      = (None, asked\<lparr>current_chat_file := Some f1\<rparr>, emit [ChatSaved f1] w5)
    \<and> (\<forall>w'. fst (generate_filename (asked\<lparr>current_chat_file := Some f1\<rparr>) None w') = f1)"
    by blast
  with h g1 g2 g3 g4 f1 f2 f3 f4 show ?thesis
    by simp
qed

subsection \<open>A save that fails\<close>

text \<open>\<^verbatim>\<open>KeyboardInterrupt\<close> during the write is no error of the file or of the
  serialisation, and \<^verbatim>\<open>except Exception\<close> does not catch it: it leaves \<^verbatim>\<open>save_chat\<close>,
  with the chatbot as it was.\<close>

lemma interrupted_save_leaves:
  assumes "chat_history self \<noteq> []"
    and "generate_filename self custom_filename w = (filename, w1)"
    and "now w1 = (t, w2)"
    and "write_file filename (the_data self t) w2 = (Some KeyboardInterrupt, w3)"
  shows "save_chat self custom_filename w = (Some KeyboardInterrupt, self, w3)"
  using assms by (simp add: save_chat_def the_data_def)

text \<open>
  Claim C6. When opening or writing the file raises an error (any exception but
  \<^verbatim>\<open>KeyboardInterrupt\<close>), \<^verbatim>\<open>save_chat\<close> prints the error and returns with the chatbot
  as it was: history, system prompt and file name are unchanged. The command loop goes on
  after such a \<^verbatim>\<open>/save\<close>.
\<close>

theorem failed_save_keeps_state:
  assumes "chat_history self \<noteq> []"
    and "generate_filename self custom_filename w = (filename, w1)"
    and "now w1 = (t, w2)"
    and "write_file filename (the_data self t) w2 = (Some e, w3)"
    and "e \<noteq> KeyboardInterrupt"
  shows "save_chat self custom_filename w = (None, self, emit [ErrorSaving e] w3)
    \<and> (\<forall>w0 line part parts.
          py_input InputPrompt w0 = (Inr line, w) \<and> prefix (lit ''/'') (py_strip line)
          \<and> split1 (tl (py_strip line)) = part # parts \<and> py_lower part = lit ''save''
          \<and> custom_filename = (case parts of [] \<Rightarrow> None | a # _ \<Rightarrow> Some a)
        \<longrightarrow> body self w0 = (Continue, self, emit [ErrorSaving e] w3))"
proof -
  have s: "save_chat self custom_filename w = (None, self, emit [ErrorSaving e] w3)"
    using assms by (simp add: save_chat_def the_data_def)
  have "body self w0 = (Continue, self, emit [ErrorSaving e] w3)"
    if "py_input InputPrompt w0 = (Inr line, w)" "prefix (lit ''/'') (py_strip line)"
      "split1 (tl (py_strip line)) = part # parts" "py_lower part = lit ''save''"
      "custom_filename = (case parts of [] \<Rightarrow> None | a # _ \<Rightarrow> Some a)"
    for w0 line part parts
  proof -
    from that(2) have "py_strip line \<noteq> []"
      by (auto simp: lit_def)
    moreover have "\<not> List.member [lit ''quit'', lit ''exit'', lit ''q''] (lit ''save'')"
      "lit ''save'' \<noteq> lit ''help''" "lit ''save'' \<noteq> lit ''clear''"
      by (simp_all add: lit_def)
    ultimately show ?thesis
      using that s by (simp add: body_def Let_def)
  qed
  with s show ?thesis
    by blast
qed

theorem failed_save_keeps_state_witness:
  "chat_history garbled \<noteq> []
   \<and> generate_filename garbled (Some (lit ''notes'')) quiet = (lit ''notes.json'', quiet)
   \<and> fst (write_file (lit ''notes.json'') (the_data garbled (still 0)) (snd (now quiet)))
       = Some UnicodeEncodeError
   \<and> UnicodeEncodeError \<noteq> KeyboardInterrupt
   \<and> fst (save_chat garbled (Some (lit ''notes'')) quiet) = None
   \<and> fst (snd (save_chat garbled (Some (lit ''notes'')) quiet)) = garbled
   \<and> last (stdout (snd (snd (save_chat garbled (Some (lit ''notes'')) quiet))))
       = ErrorSaving UnicodeEncodeError"
proof -
  have h: "chat_history garbled \<noteq> []"
    by (simp add: garbled_def append_msg_def)
  have g: "generate_filename garbled (Some (lit ''notes'')) quiet = (lit ''notes.json'', quiet)"
    by (simp add: generate_filename_def falsy_def lit_def suffix_to_prefix)
  have n: "now quiet = (still 0, snd (now quiet))"
    by (simp add: now_def quiet_def)
  have "\<not> serialisable (the_data garbled (still 0))"
    by (simp add: serialisable_def the_data_def garbled_def append_msg_def encodable_def)
  then have "\<exists>w3. write_file (lit ''notes.json'') (the_data garbled (still 0)) (snd (now quiet))
      = (Some UnicodeEncodeError, w3)"
    by (simp add: write_file_def now_def quiet_def empty_disk_def Let_def lit_def
        split: prod.splits)
  then obtain w3 where w:
    "write_file (lit ''notes.json'') (the_data garbled (still 0)) (snd (now quiet))
      = (Some UnicodeEncodeError, w3)"
    by blast
  have k: "UnicodeEncodeError \<noteq> KeyboardInterrupt"
    by simp
  from failed_save_keeps_state [OF h g n w k] h g w show ?thesis
    by (simp add: emit_def)
qed

subsection \<open>Saving, then listing\<close>











lemma list_saved_chats_pure:
  "fst (snd (list_saved_chats self w)) = self
   \<and> (\<exists>printed. snd (snd (list_saved_chats self w)) = w\<lparr>stdout := stdout w @ printed\<rparr>)"
proof -
  have "\<exists>printed. w = w\<lparr>stdout := stdout w @ printed\<rparr>"
    by (rule exI [of _ "[]"]) simp
  then show ?thesis
    by (auto simp: list_saved_chats_def Let_def emit_def split: option.splits prod.splits)
qed






text \<open>The definitions that running a save and a listing on sample values unfolds.\<close>

lemmas run_defs =
  save_chat_def list_saved_chats_def generate_filename_def write_file_def put_entry_def
  child_of_def plain_def glob_json_def serialisable_def encodable_def printable_def
  falsy_def now_def emit_def st_mtime_def the_data_def
  shelf_def aged_def dangling_def escaped_def quiet_def empty_disk_def still_def calendar_def
  asked_def fresh_def helpful_def ChatBot_def append_msg_def
  Let_def lit_def suffix_to_prefix



subsection \<open>How the program ends\<close>

text \<open>The definitions that running the program on sample values unfolds.\<close>

lemmas loop_defs =
  main_def cleanup_def load_model_def body_def py_input_def split1_def py_strip_def
  py_lower_def lower_cp_def isspace_def clear_chat_def stat_error.simps ready_def

text \<open>Without the model file, and when the engine fails to load, the exit status is 1;
  after \<^verbatim>\<open>/quit\<close> it is 0, provided the question whether to save gets an answer and the
  save it may start is not interrupted.\<close>

lemma main_without_model: "\<not> model_exists env \<Longrightarrow> fst (main env w) = Exit 1"
  by (simp add: main_def)

lemma main_engine_failure:
  "model_exists env \<Longrightarrow> init_error env = None \<Longrightarrow> llama env = Inl e \<Longrightarrow> e \<noteq> KeyboardInterrupt
   \<Longrightarrow> fst (main env w) = Exit 1"
  by (cases "e = FileNotFoundError") (simp_all add: main_def load_model_def Let_def)

lemma cleanup_exit:
  assumes "chat_history chatbot = []
    \<or> (\<exists>answer keys. stdin w = Line answer # keys
          \<and> (py_lower (py_strip answer) = lit ''y'' \<longrightarrow>
               fst (save_chat chatbot None ((emit [SavePrompt] w)\<lparr>stdin := keys\<rparr>)) = None))"
  shows "fst (cleanup chatbot w) = Exit 0"
  using assms
  by (auto simp: cleanup_def py_input_def Let_def split: prod.splits option.splits)

lemma main_quit:
  assumes "model_exists env" and "init_error env = None" and "llama env = Inr engine"
    and "main_loop (ChatBot\<lparr>llm := Some engine\<rparr>) (emit [Banner, Loading, ModelLoaded] w)
           = (None, chatbot, w')"
    and "chat_history chatbot = []
      \<or> (\<exists>answer keys. stdin w' = Line answer # keys
            \<and> (py_lower (py_strip answer) = lit ''y'' \<longrightarrow>
                 fst (save_chat chatbot None ((emit [SavePrompt] w')\<lparr>stdin := keys\<rparr>)) = None))"
  shows "fst (main env w) = Exit 0"
  using assms(1-4) cleanup_exit [OF assms(5)]
  by (simp add: main_def load_model_def Let_def emit_def)

lemma quit_breaks:
  "stdin w = Line (lit ''/quit'') # keys \<Longrightarrow>
   main_loop self w = (None, self, (emit [InputPrompt, Goodbye] w)\<lparr>stdin := keys\<rparr>)"
  by (simp add: body_def py_input_def split1_def py_strip_def py_lower_def lower_cp_def
      isspace_def emit_def Let_def lit_def)

text \<open>
  Claim C9 says that no recoverable error of a single request ends the process. The
  program does end on two of them: the command line \<^verbatim>\<open>/\<close>, for which
  \<^verbatim>\<open>command_parts[0]\<close> raises \<^verbatim>\<open>IndexError\<close>, and \<^verbatim>\<open>/list\<close> when \<^verbatim>\<open>stat\<close> fails on an
  entry. Either exception leaves the loop for the handler around it; the line typed next
  is never read.
\<close>

theorem bare_slash_ends_the_program:
  "main ready (quiet\<lparr>stdin := [Line (lit ''/''), Line (lit ''/help'')]\<rparr>)
     = (Exit 0,
        quiet\<lparr>stdin := [Line (lit ''/help'')],
              stdout := [Banner, Loading, ModelLoaded, InputPrompt, UnexpectedError IndexError]\<rparr>)
   \<and> main ready (shelf [dangling ''link.json'']\<lparr>stdin := [Line (lit ''/list''), Line (lit ''/help'')]\<rparr>)
     = (Exit 0,
        shelf [dangling ''link.json'']
          \<lparr>stdin := [Line (lit ''/help'')],
           stdout := [Banner, Loading, ModelLoaded, InputPrompt,
                      UnexpectedError FileNotFoundError]\<rparr>)"
  by (simp add: loop_defs run_defs)

end
